theory Spec2Isabelle
  imports Main
begin

section \<open>JavaScript values held by the controllers\<close>

text \<open>
  The two controllers keep identifiers in variables that start as \<open>null\<close> and are later
  overwritten with a DOM dataset attribute (a string, or \<open>undefined\<close> when the attribute is
  absent) or with a field of the parsed JSON response (a string, \<open>null\<close>, or \<open>undefined\<close>
  when the field is absent).  Strings are lists of code units below 256.  Every test the
  scripts make on these variables is a truthiness test (\<open>!x\<close>, \<open>if (x)\<close>, \<open>x || d\<close>):
  \<open>undefined\<close>, \<open>null\<close> and the empty string are falsy, every other string is truthy.
\<close>

datatype jsval = Undefined | Null | Str string

fun truthy :: "jsval \<Rightarrow> bool" where
  "truthy Undefined = False"
| "truthy Null = False"
| "truthy (Str s) = (s \<noteq> [])"

text \<open>String conversion, as a template literal or string concatenation performs it.\<close>

fun toString :: "jsval \<Rightarrow> string" where
  "toString Undefined = ''undefined''"
| "toString Null = ''null''"
| "toString (Str s) = s"

text \<open>\<open>v || d\<close> where \<open>d\<close> is a string literal, read as a string.\<close>

definition orElse :: "jsval \<Rightarrow> string \<Rightarrow> string" where
  "orElse v d = (if truthy v then toString v else d)"

text \<open>Letters of the Swedish messages outside ASCII, as single code units.\<close>

definition auml :: char where "auml = CHR 0xE4"
definition aring :: char where "aring = CHR 0xE5"
definition ouml :: char where "ouml = CHR 0xF6"
definition newline :: char where "newline = CHR 0x0A"

section \<open>Data exchanged with the page and the server\<close>

text \<open>\<open>showToast(message, type = 'success')\<close>: the type selects the icon.\<close>

datatype toast_type = ToastSuccess | ToastWarning | ToastError

text \<open>One entry of \<open>data.scripts\<close>.\<close>

record script =
  filename :: string
  content :: string

text \<open>One entry of \<open>window.VR_STUDIO_DATA.procedures\<close>.\<close>

record procedure =
  key :: string
  name_sv :: string

text \<open>
  A \<open>.procedure-card\<close> element: its \<open>data-procedure\<close> attribute as read through
  \<open>dataset.procedure\<close> and whether its class list holds \<open>selected\<close>.
\<close>

record card =
  dataset_procedure :: jsval
  selected :: bool

text \<open>The JSON body posted to \<open>/vr-studio/generate\<close>.\<close>

record request =
  prompt :: string
  procedure_type :: jsval
  complexity :: string
  language :: string

text \<open>
  The parsed response body, with the fields the handlers read.  \<open>success\<close> is the
  truthiness of \<open>data.success\<close>; \<open>scripts\<close> is \<open>None\<close> when \<open>data.scripts\<close> is absent or
  \<open>null\<close>.
\<close>

record gen_data =
  success :: bool
  project_id :: jsval
  scripts :: "script list option"
  error :: jsval

text \<open>
  What the awaited calls produce.  \<open>fetch\<close> rejects on a transport failure only; a response
  with any HTTP status resolves, and carries \<open>response.ok\<close> (status 200 to 299).  Reading
  the body either throws (\<open>response.json()\<close> rejects, or the parsed value is \<open>null\<close> and
  reading \<open>data.success\<close> throws), with the thrown error's message, or yields the parsed
  data.
\<close>

datatype body = Unreadable string | Parsed gen_data

datatype outcome = FetchRejected string | Response bool body

text \<open>
  What was last assigned to \<open>codePreview.innerHTML\<close> in the wizard: the template used and
  the values spliced into it.  The values are markup to the element, not text: the error
  template takes \<open>error.message\<close> as it is, and the script template takes each file name
  as it is and each content through \<open>escapeHtml\<close>.  What the element then displays is up
  to the HTML parser and is not modelled.
\<close>

datatype preview =
    PreviewInitial
  | PreviewLoading
  | PreviewErrorMarkup string
  | PreviewNoCode
  | PreviewScripts "script list"

text \<open>
  What the page supplies to the wizard: \<open>window.VR_STUDIO_DATA.procedures\<close> (\<open>None\<close> when
  there is no such field), whether \<open>window.VR_STUDIO_DATA.packages\<close> is truthy (an empty
  array is), and whether an element \<open>#packageList\<close> exists.
\<close>

record page =
  vr_procedures :: "procedure list option"
  vr_packages :: bool
  hasPackageList :: bool

text \<open>An uncaught exception leaving an event handler.\<close>

datatype thrown = TypeError

text \<open>
  Modelled from the spec: the page templates are not among the sources, so the elements
  \<open>#generateCodeBtn\<close> of the wizard and \<open>#generateBtn\<close> of the form are taken to be what
  the spec calls the invoking control: a button through which alone generation is invoked
  and which dispatches no event while its \<open>disabled\<close> flag is set.
\<close>

definition dispatches :: "bool \<Rightarrow> bool" where
  "dispatches disabled = (\<not> disabled)"

section \<open>The wizard (\<open>static/js/vr_wizard.js\<close>)\<close>

text \<open>
  The closure variables \<open>currentStep\<close>, \<open>selectedProcedure\<close>, \<open>generatedProjectId\<close>, the page
  data \<open>procedures\<close> and \<open>packages\<close> and the presence of \<open>#packageList\<close>, which never change,
  and the parts of the page the handlers write: the procedure cards, the header text, the
  calls of \<open>showToast\<close> in order, the generate button's \<open>disabled\<close> flag, the code preview,
  \<open>window.generatedScripts\<close>, \<open>window.location.href\<close> once assigned, the previous button's
  \<open>disabled\<close> flag, whether \<open>nextBtn.onclick\<close> has been assigned, and how many click
  listeners \<open>#downloadProjectBtn\<close> carries.  \<open>requests\<close> lists the bodies handed to \<open>fetch\<close>
  in order and \<open>inFlight\<close> counts the calls of \<open>fetch\<close> whose promise has not settled yet.
\<close>

record wizard =
  currentStep :: int
  selectedProcedure :: jsval
  generatedProjectId :: jsval
  procedures :: "procedure list option"
  packages :: bool
  packageList :: bool
  cards :: "card list"
  procedureName :: string
  toasts :: "(string \<times> toast_type) list"
  generateBtnDisabled :: bool
  codePreview :: preview
  window_generatedScripts :: "script list option"
  location_href :: "string option"
  prevBtnDisabled :: bool
  nextBtnOnclick :: bool
  downloadListeners :: nat
  requests :: "request list"
  inFlight :: nat

definition totalSteps :: int where
  "totalSteps = 5"

text \<open>The state when the \<open>DOMContentLoaded\<close> handler has run \<open>init()\<close>.\<close>

definition init :: "page \<Rightarrow> card list \<Rightarrow> wizard" where
  "init ps cs =
    \<lparr> currentStep = 1, selectedProcedure = Null, generatedProjectId = Null,
      procedures = vr_procedures ps, packages = vr_packages ps,
      packageList = hasPackageList ps, cards = cs, procedureName = [], toasts = [],
      generateBtnDisabled = False, codePreview = PreviewInitial,
      window_generatedScripts = None, location_href = None,
      prevBtnDisabled = False, nextBtnOnclick = False, downloadListeners = 0,
      requests = [], inFlight = 0 \<rparr>"

definition showToast :: "string \<Rightarrow> toast_type \<Rightarrow> wizard \<Rightarrow> wizard" where
  "showToast message type st = st\<lparr>toasts := toasts st @ [(message, type)]\<rparr>"

definition msg_select_first :: string where
  "msg_select_first = ''V'' @ [auml] @ ''lj en procedur f'' @ [ouml] @ ''rst''"

definition msg_generate_first :: string where
  "msg_generate_first = ''Generera kod f'' @ [ouml] @ ''rst''"

text \<open>\<open>validateStep(step)\<close>: the verdict and the state after the toast it may show.\<close>

definition validateStep :: "int \<Rightarrow> wizard \<Rightarrow> bool \<times> wizard" where
  "validateStep step st =
    (if step = 1 \<and> \<not> truthy (selectedProcedure st)
       then (False, showToast msg_select_first ToastWarning st)
     else if step = 3 \<and> \<not> truthy (generatedProjectId st)
       then (False, showToast msg_generate_first ToastWarning st)
     else (True, st))"

text \<open>
  \<open>updateNavButtons()\<close>: on the last step \<open>nextBtn.onclick\<close> is assigned; no branch ever
  clears it.
\<close>

definition updateNavButtons :: "wizard \<Rightarrow> wizard" where
  "updateNavButtons st =
    (let st1 = st\<lparr>prevBtnDisabled := (currentStep st = 1)\<rparr>
     in if currentStep st1 = totalSteps then st1\<lparr>nextBtnOnclick := True\<rparr> else st1)"

text \<open>
  \<open>loadPackageList()\<close>: it returns at once when \<open>packages\<close> is falsy or \<open>#packageList\<close> is
  missing; otherwise it fills the list and adds one more click listener to
  \<open>#downloadProjectBtn\<close>, a new function at every call (the button itself is taken to
  exist on the page).
\<close>

definition loadPackageList :: "wizard \<Rightarrow> wizard" where
  "loadPackageList st =
    (if \<not> packages st \<or> \<not> packageList st then st
     else st\<lparr>downloadListeners := Suc (downloadListeners st)\<rparr>)"

text \<open>
  \<open>goToStep(step)\<close>.  The class lists of the step panels and of the progress bar follow
  \<open>currentStep\<close> and are not kept apart from it.  Entering step 4 runs \<open>loadPackageList\<close>.
  The loaders run on entering steps 2 and 5 (\<open>loadAssetsForProcedure\<close>, \<open>loadTutorials\<close>)
  fill the panel of their step and write none of the fields above; they are left out.
\<close>

definition goToStep :: "int \<Rightarrow> wizard \<Rightarrow> wizard" where
  "goToStep step st =
    (let st1 = updateNavButtons (st\<lparr>currentStep := step\<rparr>)
     in if step = 4 then loadPackageList st1 else st1)"

text \<open>The click listener of \<open>prevBtn\<close>.\<close>

definition prevClick :: "wizard \<Rightarrow> wizard" where
  "prevClick st = (if currentStep st > 1 then goToStep (currentStep st - 1) st else st)"

text \<open>The click listener of \<open>nextBtn\<close>.\<close>

definition nextClick :: "wizard \<Rightarrow> wizard" where
  "nextClick st =
    (case validateStep (currentStep st) st of
       (True, st1) \<Rightarrow>
         (if currentStep st1 < totalSteps then goToStep (currentStep st1 + 1) st1 else st1)
     | (False, st1) \<Rightarrow> st1)"

text \<open>The \<open>nextBtn.onclick\<close> handler assigned on the last step.\<close>

definition msg_good_luck :: string where
  "msg_good_luck = ''Lycka till med din VR-simulering!''"

definition finishClick :: "wizard \<Rightarrow> wizard" where
  "finishClick st = (showToast msg_good_luck ToastSuccess st)\<lparr>location_href := Some ''/vr-studio/''\<rparr>"

text \<open>
  A click on \<open>nextBtn\<close>: the listener registered by \<open>setupNavigation\<close> runs first, then the
  \<open>onclick\<close> handler if it had been assigned before this click (a handler first assigned
  while the click is dispatched is not run for that click).
\<close>

definition nextBtnClick :: "wizard \<Rightarrow> wizard" where
  "nextBtnClick st =
    (let st1 = nextClick st in if nextBtnOnclick st then finishClick st1 else st1)"

subsection \<open>Step 1: procedure selection\<close>

text \<open>
  The click listener of the card at position \<open>i\<close> of \<open>cards\<close>, with the exception it may
  leave uncaught.  All cards lose \<open>selected\<close>, the clicked one gains it, and
  \<open>selectedProcedure\<close> becomes its \<open>dataset.procedure\<close>.  \<open>procedures.find\<close> throws when
  \<open>procedures\<close> is \<open>undefined\<close>; the header is written under \<open>if (proc)\<close>, but the toast
  reads \<open>proc.name_sv\<close> outside that test and throws when nothing was found.  What was
  written before the exception stays written.  No listener exists for a position beyond
  the cards.
\<close>

definition cardClick :: "nat \<Rightarrow> wizard \<Rightarrow> wizard \<times> thrown option" where
  "cardClick i st =
    (if i < length (cards st) then
       (let cleared = map (\<lambda>c. c\<lparr>selected := False\<rparr>) (cards st);
            st1 = st\<lparr>cards := cleared[i := (cleared ! i)\<lparr>selected := True\<rparr>],
                     selectedProcedure := dataset_procedure (cards st ! i)\<rparr>
        in case procedures st1 of
             None \<Rightarrow> (st1, Some TypeError)
           | Some ps \<Rightarrow>
               (case find (\<lambda>p. Str (key p) = selectedProcedure st1) ps of
                  None \<Rightarrow> (st1, Some TypeError)
                | Some proc \<Rightarrow>
                    (showToast (name_sv proc @ '' vald'') ToastSuccess
                       (st1\<lparr>procedureName := name_sv proc\<rparr>), None)))
     else (st, None))"

subsection \<open>Step 3: code generation\<close>

text \<open>
  What \<open>generateCode\<close> reads from the page: the \<open>data-option\<close> of the active interaction
  and complexity buttons and the value of \<open>#customPrompt\<close> (\<open>Undefined\<close> where optional
  chaining found no element), and the four checkboxes (\<open>?.checked || false\<close>).
\<close>

record gen_inputs =
  interactionOption :: jsval
  complexityOption :: jsval
  customPromptValue :: jsval
  optHaptics :: bool
  optAudio :: bool
  optScoring :: bool
  optMultiplayer :: bool

text \<open>The template literal that builds the prompt.\<close>

definition buildPrompt :: "jsval \<Rightarrow> gen_inputs \<Rightarrow> string" where
  "buildPrompt sel inp =
    (let interactionType = orElse (interactionOption inp) ''hand_tracking'';
         complexity = orElse (complexityOption inp) ''beginner'';
         customPrompt = orElse (customPromptValue inp) []
     in ''Skapa en komplett VR-simulering f'' @ [ouml] @ ''r '' @ toString sel
        @ '' med f'' @ [ouml] @ ''ljande specifikationer:'' @ [newline]
        @ ''- Interaktion: ''
        @ (if interactionType = ''hand_tracking'' then ''Handsp'' @ [aring] @ ''rning''
           else if interactionType = ''controllers'' then ''Kontroller''
           else ''B'' @ [aring] @ ''da'') @ [newline]
        @ ''- Komplexitet: '' @ complexity @ [newline]
        @ (if optHaptics inp then ''- Inkludera haptisk feedback'' else []) @ [newline]
        @ (if optAudio inp then ''- Inkludera ljudeffekter'' else []) @ [newline]
        @ (if optScoring inp
           then ''- Inkludera po'' @ [auml] @ ''ngsystem och prestationsm'' @ [auml] @ ''tning''
           else []) @ [newline]
        @ (if optMultiplayer inp
           then ''- F'' @ [ouml] @ ''rbered f'' @ [ouml] @ ''r flerspelarfunktionalitet''
           else []) @ [newline]
        @ (if customPrompt \<noteq> []
           then [newline] @ ''Ytterligare instruktioner: '' @ customPrompt else []))"

text \<open>
  \<open>generateCode\<close> up to its first \<open>await\<close>: the prompt is built, the button is disabled,
  the placeholder is shown and \<open>fetch\<close> is called.  No test precedes the call.
\<close>

definition generateCode_begin :: "gen_inputs \<Rightarrow> wizard \<Rightarrow> wizard" where
  "generateCode_begin inp st =
    st\<lparr> generateBtnDisabled := True,
        codePreview := PreviewLoading,
        requests := requests st @
          [\<lparr> prompt = buildPrompt (selectedProcedure st) inp,
              procedure_type = selectedProcedure st,
              complexity = orElse (complexityOption inp) ''beginner'',
              language = ''sv'' \<rparr>],
        inFlight := Suc (inFlight st) \<rparr>"

text \<open>
  \<open>renderGeneratedCode(data)\<close>: without scripts a placeholder is shown and nothing is
  stored; otherwise one block per script is rendered, in order, and the scripts are kept
  in \<open>window.generatedScripts\<close>.
\<close>

definition renderGeneratedCode :: "gen_data \<Rightarrow> wizard \<Rightarrow> wizard" where
  "renderGeneratedCode d st =
    (case scripts d of
       None \<Rightarrow> st\<lparr>codePreview := PreviewNoCode\<rparr>
     | Some ss \<Rightarrow>
         (if ss = [] then st\<lparr>codePreview := PreviewNoCode\<rparr>
          else st\<lparr>codePreview := PreviewScripts ss, window_generatedScripts := Some ss\<rparr>))"

definition msg_unknown_error :: string where
  "msg_unknown_error = ''Ok'' @ [auml] @ ''nt fel''"

text \<open>
  The \<open>catch\<close> block, given \<open>error.message\<close>.  The toast receives the message as text
  (\<open>textContent\<close>); the preview receives it inside markup, not escaped.
\<close>

definition generateCode_catch :: "string \<Rightarrow> wizard \<Rightarrow> wizard" where
  "generateCode_catch message st =
    (showToast (''Fel: '' @ message) ToastError st)\<lparr>codePreview := PreviewErrorMarkup message\<rparr>"

text \<open>The \<open>finally\<close> block; the promise of this call has settled.\<close>

definition generateCode_finally :: "wizard \<Rightarrow> wizard" where
  "generateCode_finally st = st\<lparr>generateBtnDisabled := False, inFlight := inFlight st - 1\<rparr>"

text \<open>
  \<open>generateCode\<close> from its first \<open>await\<close> on, given what the awaited calls produced.
  \<open>response.ok\<close> is never read.
\<close>

definition generateCode_settle :: "outcome \<Rightarrow> wizard \<Rightarrow> wizard" where
  "generateCode_settle out st =
    generateCode_finally
      (case out of
         FetchRejected message \<Rightarrow> generateCode_catch message st
       | Response ok (Unreadable message) \<Rightarrow> generateCode_catch message st
       | Response ok (Parsed d) \<Rightarrow>
           (if success d
            then showToast ''Kod genererad!'' ToastSuccess
                   (renderGeneratedCode d (st\<lparr>generatedProjectId := project_id d\<rparr>))
            else generateCode_catch (orElse (error d) msg_unknown_error) st))"

text \<open>One whole run of \<open>generateCode\<close> with nothing else happening while it waits.\<close>

definition generateCode :: "gen_inputs \<Rightarrow> outcome \<Rightarrow> wizard \<Rightarrow> wizard" where
  "generateCode inp out st = generateCode_settle out (generateCode_begin inp st)"

subsection \<open>Step 4: download\<close>

text \<open>One click listener that \<open>loadPackageList\<close> has put on \<open>#downloadProjectBtn\<close>.\<close>

definition downloadClick :: "wizard \<Rightarrow> wizard" where
  "downloadClick st =
    (if truthy (generatedProjectId st)
     then showToast ''Laddar ner...'' ToastSuccess
            (st\<lparr>location_href := Some (''/vr-studio/download/'' @ toString (generatedProjectId st))\<rparr>)
     else showToast (''Generera kod f'' @ [ouml] @ ''rst (steg 3)'') ToastWarning st)"

text \<open>
  A click on \<open>#downloadProjectBtn\<close>: every listener the button carries runs, one after the
  other; a button that carries none does nothing.
\<close>

definition downloadBtnClick :: "wizard \<Rightarrow> wizard" where
  "downloadBtnClick st = (downloadClick ^^ downloadListeners st) st"

subsection \<open>The wizard as an event-driven machine\<close>

text \<open>
  What can happen to the page, one event at a time (the page is single-threaded: a handler
  runs to its end or to its next \<open>await\<close> before the next event is taken).  \<open>Settle\<close>
  resumes a pending \<open>generateCode\<close> and does nothing when no call is in flight.
\<close>

datatype event =
    NextBtn
  | PrevBtn
  | CardEv nat
  | GenerateClick gen_inputs
  | Settle outcome
  | DownloadBtn

text \<open>
  One event.  \<open>generateCode\<close> itself tests nothing before it calls \<open>fetch\<close>; whether it
  is invoked at all is up to the button.
\<close>

definition step :: "event \<Rightarrow> wizard \<Rightarrow> wizard" where
  "step e st =
    (case e of
       NextBtn \<Rightarrow> nextBtnClick st
     | PrevBtn \<Rightarrow> prevClick st
     | CardEv i \<Rightarrow> fst (cardClick i st)
     | GenerateClick inp \<Rightarrow>
         (if dispatches (generateBtnDisabled st) then generateCode_begin inp st else st)
     | Settle out \<Rightarrow> (if inFlight st = 0 then st else generateCode_settle out st)
     | DownloadBtn \<Rightarrow> downloadBtnClick st)"

text \<open>The events of a list, taken from left to right.\<close>

fun run :: "event list \<Rightarrow> wizard \<Rightarrow> wizard" where
  "run [] st = st"
| "run (e # es) st = run es (step e st)"

section \<open>The stand-alone generation form (\<open>unnamed/part_001\<close>)\<close>

text \<open>
  \<open>String.prototype.trim\<close> on code units below 256: tab, line feed, vertical tab, form
  feed, carriage return, space and no-break space are removed from both ends.
\<close>

definition isWhiteSpace :: "char \<Rightarrow> bool" where
  "isWhiteSpace c =
    (c = CHR 0x09 \<or> c = CHR 0x0A \<or> c = CHR 0x0B \<or> c = CHR 0x0C \<or> c = CHR 0x0D
     \<or> c = CHR 0x20 \<or> c = CHR 0xA0)"

definition trim :: "string \<Rightarrow> string" where
  "trim s = rev (dropWhile isWhiteSpace (rev (dropWhile isWhiteSpace s)))"

text \<open>
  The closure variables \<open>currentProjectId\<close> and \<open>generatedScripts\<close>, and what the handlers
  write on the page: the calls of \<open>showToast\<close>, the generate button's \<open>disabled\<close> flag,
  whether \<open>#loadingState\<close>, \<open>#emptyState\<close>, \<open>#codeOutput\<close> (with \<open>#outputActions\<close>) and
  \<open>#downloadPanel\<close> are displayed, the scripts rendered in \<open>#scriptsContainer\<close>, and
  \<open>window.location.href\<close> once assigned; \<open>s_requests\<close> and \<open>s_inFlight\<close> are as for the
  wizard.
\<close>

record studio =
  currentProjectId :: jsval
  generatedScripts :: "script list"
  s_toasts :: "(string \<times> toast_type) list"
  s_generateBtnDisabled :: bool
  s_loadingShown :: bool
  s_emptyShown :: bool
  s_outputShown :: bool
  s_downloadShown :: bool
  s_rendered :: "script list"
  s_location_href :: "string option"
  s_requests :: "request list"
  s_inFlight :: nat

definition studio_init :: studio where
  "studio_init =
    \<lparr> currentProjectId = Null, generatedScripts = [], s_toasts = [],
      s_generateBtnDisabled = False, s_loadingShown = False, s_emptyShown = True,
      s_outputShown = False, s_downloadShown = False, s_rendered = [],
      s_location_href = None, s_requests = [], s_inFlight = 0 \<rparr>"

definition s_showToast :: "string \<Rightarrow> toast_type \<Rightarrow> studio \<Rightarrow> studio" where
  "s_showToast message type st = st\<lparr>s_toasts := s_toasts st @ [(message, type)]\<rparr>"

definition setLoadingState :: "bool \<Rightarrow> studio \<Rightarrow> studio" where
  "setLoadingState loading st =
    (if loading
     then st\<lparr> s_loadingShown := True, s_emptyShown := False, s_outputShown := False,
              s_downloadShown := False, s_generateBtnDisabled := True \<rparr>
     else st\<lparr> s_loadingShown := False, s_generateBtnDisabled := False \<rparr>)"

text \<open>
  What the submit handler reads from the form: the value of \<open>#prompt\<close>, the value of
  \<open>#procedureType\<close> and the value of the checked complexity radio button (one is
  checked).
\<close>

record form_inputs =
  promptValue :: string
  procedureValue :: string
  complexityValue :: string

definition msg_prompt_first :: string where
  "msg_prompt_first = ''Skriv en prompt f'' @ [ouml] @ ''rst''"

text \<open>
  The submit handler up to its first \<open>await\<close>: an empty trimmed prompt ends it with a
  warning before anything else is touched; otherwise the loading state is set and
  \<open>fetch\<close> is called.
\<close>

definition submit_begin :: "form_inputs \<Rightarrow> studio \<Rightarrow> studio" where
  "submit_begin inp st =
    (let p = trim (promptValue inp)
     in if p = [] then s_showToast msg_prompt_first ToastWarning st
        else (setLoadingState True st)
               \<lparr> s_requests := s_requests st @
                   [\<lparr> prompt = p,
                       procedure_type =
                         (if procedureValue inp = [] then Null else Str (procedureValue inp)),
                       complexity = complexityValue inp,
                       language = ''sv'' \<rparr>],
                 s_inFlight := Suc (s_inFlight st) \<rparr>)"

text \<open>
  \<open>displayResults(data)\<close>, as far as the scripts go (the setup instructions and the
  dependency tags are two more lists filled the same way).
\<close>

definition displayResults :: "gen_data \<Rightarrow> studio \<Rightarrow> studio" where
  "displayResults d st =
    (setLoadingState False st)
      \<lparr> s_emptyShown := False, s_outputShown := True,
        s_rendered := (case scripts d of None \<Rightarrow> [] | Some ss \<Rightarrow> ss),
        s_downloadShown := True \<rparr>"

text \<open>The \<open>catch\<close> block of the submit handler, given \<open>error.message\<close>.\<close>

definition submit_catch :: "string \<Rightarrow> studio \<Rightarrow> studio" where
  "submit_catch message st =
    (setLoadingState False (s_showToast (''Fel: '' @ message) ToastError st))
      \<lparr>s_emptyShown := True\<rparr>"

text \<open>
  The submit handler from its first \<open>await\<close> on.  \<open>response.ok\<close> is never read here
  either.
\<close>

definition submit_settle :: "outcome \<Rightarrow> studio \<Rightarrow> studio" where
  "submit_settle out st =
    (let st0 = st\<lparr>s_inFlight := s_inFlight st - 1\<rparr>
     in case out of
          FetchRejected message \<Rightarrow> submit_catch message st0
        | Response ok (Unreadable message) \<Rightarrow> submit_catch message st0
        | Response ok (Parsed d) \<Rightarrow>
            (if success d
             then s_showToast ''Kod genererad!'' ToastSuccess
                    (displayResults d
                       (st0\<lparr> currentProjectId := project_id d,
                             generatedScripts := (case scripts d of None \<Rightarrow> [] | Some ss \<Rightarrow> ss) \<rparr>))
             else submit_catch (orElse (error d) msg_unknown_error) st0))"

text \<open>
  One whole run of the submit handler with nothing else happening while it waits; without
  a call to wait for, the handler has ended in \<open>submit_begin\<close>.
\<close>

definition submit :: "form_inputs \<Rightarrow> outcome \<Rightarrow> studio \<Rightarrow> studio" where
  "submit inp out st =
    (if trim (promptValue inp) = [] then submit_begin inp st
     else submit_settle out (submit_begin inp st))"

text \<open>\<open>downloadProject()\<close>.\<close>

definition downloadProject :: "studio \<Rightarrow> studio" where
  "downloadProject st =
    (if \<not> truthy (currentProjectId st)
     then s_showToast ''Ingen projekt att ladda ner'' ToastWarning st
     else s_showToast ''Laddar ner...'' ToastSuccess
            (st\<lparr>s_location_href := Some (''/vr-studio/download/'' @ toString (currentProjectId st))\<rparr>))"

text \<open>The form as an event-driven machine.\<close>

datatype s_event = SubmitEv form_inputs | SettleEv outcome | DownloadEv

text \<open>
  One event.  The submit handler itself does not test the busy flag; whether it is invoked
  at all is up to the button.
\<close>

definition s_step :: "s_event \<Rightarrow> studio \<Rightarrow> studio" where
  "s_step e st =
    (case e of
       SubmitEv inp \<Rightarrow>
         (if dispatches (s_generateBtnDisabled st) then submit_begin inp st else st)
     | SettleEv out \<Rightarrow> (if s_inFlight st = 0 then st else submit_settle out st)
     | DownloadEv \<Rightarrow> downloadProject st)"

fun s_run :: "s_event list \<Rightarrow> studio \<Rightarrow> studio" where
  "s_run [] st = st"
| "s_run (e # es) st = s_run es (s_step e st)"

section \<open>Sample pages and responses\<close>

text \<open>
  A page with one procedure card whose procedure the server data knows; the packages and
  the package list are in place.
\<close>

definition sample_procedures :: page where
  "sample_procedures =
    \<lparr> vr_procedures = Some [\<lparr>key = ''proc_a'', name_sv = ''Procedur A''\<rparr>],
      vr_packages = True, hasPackageList = True \<rparr>"

definition sample_cards :: "card list" where
  "sample_cards = [\<lparr>dataset_procedure = Str ''proc_a'', selected = False\<rparr>]"

text \<open>A page whose only card has an empty \<open>data-procedure\<close>, known to the server data.\<close>

definition blank_procedures :: page where
  "blank_procedures =
    \<lparr> vr_procedures = Some [\<lparr>key = [], name_sv = ''Ingen''\<rparr>],
      vr_packages = True, hasPackageList = True \<rparr>"

definition blank_cards :: "card list" where
  "blank_cards = [\<lparr>dataset_procedure = Str [], selected = False\<rparr>]"

text \<open>What the wizard's generation step and the stand-alone form hold when submitted.\<close>

definition sample_inputs :: gen_inputs where
  "sample_inputs =
    \<lparr> interactionOption = Str ''controllers'', complexityOption = Undefined,
      customPromptValue = Str [], optHaptics = True, optAudio = False,
      optScoring = False, optMultiplayer = False \<rparr>"

definition sample_form :: form_inputs where
  "sample_form = \<lparr> promptValue = ''x'', procedureValue = [], complexityValue = ''beginner'' \<rparr>"

text \<open>The response \<open>{success: false, error: "boom"}\<close> with status 200.\<close>

definition boom_response :: outcome where
  "boom_response =
    Response True
      (Parsed \<lparr>success = False, project_id = Undefined, scripts = None, error = Str ''boom''\<rparr>)"

text \<open>A response with status 500 whose body is \<open>{success: true, project_id: "p9"}\<close>.\<close>

definition contradictory_response :: outcome where
  "contradictory_response =
    Response False
      (Parsed \<lparr>success = True, project_id = Str ''p9'', scripts = None, error = Undefined\<rparr>)"

text \<open>The form submitted with nothing typed.\<close>

definition blank_form :: form_inputs where
  "blank_form = \<lparr> promptValue = [], procedureValue = ''proc_a'', complexityValue = ''beginner'' \<rparr>"

definition sample_script :: script where
  "sample_script = \<lparr>filename = ''A.cs'', content = ''...''\<rparr>"

text \<open>The response \<open>{success: true, project_id: "p1", scripts: [{filename: "A.cs", ...}]}\<close>.\<close>

definition p1_response :: outcome where
  "p1_response =
    Response True
      (Parsed \<lparr>success = True, project_id = Str ''p1'', scripts = Some [sample_script],
               error = Undefined\<rparr>)"

text \<open>The same response without a \<open>project_id\<close> field, and with an empty one.\<close>

definition idless_response :: outcome where
  "idless_response =
    Response True
      (Parsed \<lparr>success = True, project_id = Undefined, scripts = Some [sample_script],
               error = Undefined\<rparr>)"


definition blank_id_response :: outcome where
  "blank_id_response =
    Response True
      (Parsed \<lparr>success = True, project_id = Str [], scripts = Some [sample_script],
               error = Undefined\<rparr>)"

text \<open>A page with a second card whose procedure the server data does not know.\<close>

definition stray_cards :: "card list" where
  "stray_cards =
    [\<lparr>dataset_procedure = Str ''proc_a'', selected = False\<rparr>,
     \<lparr>dataset_procedure = Str ''proc_x'', selected = False\<rparr>]"

text \<open>A page with a second card that has no \<open>data-procedure\<close> attribute.\<close>

definition ragged_cards :: "card list" where
  "ragged_cards =
    [\<lparr>dataset_procedure = Str ''proc_a'', selected = False\<rparr>,
     \<lparr>dataset_procedure = Undefined, selected = False\<rparr>]"

section \<open>Invariants of the busy flag\<close>

text \<open>The generate button is disabled exactly while one call is in flight, and never more.\<close>

definition busy_inv :: "wizard \<Rightarrow> bool" where
  "busy_inv st \<longleftrightarrow> inFlight st = (if generateBtnDisabled st then 1 else 0)"

definition s_busy_inv :: "studio \<Rightarrow> bool" where
  "s_busy_inv st \<longleftrightarrow> s_inFlight st = (if s_generateBtnDisabled st then 1 else 0)"

text \<open>From step 4 on, a page with its package list has a listener on the download button.\<close>

definition listener_inv :: "wizard \<Rightarrow> bool" where
  "listener_inv st \<longleftrightarrow>
    (if packages st \<and> packageList st \<and> 4 \<le> currentStep st then 1 \<le> downloadListeners st
     else True)"

lemmas wizard_defs =
  step_def dispatches_def cardClick_def init_def showToast_def validateStep_def nextClick_def
  nextBtnClick_def Let_def goToStep_def updateNavButtons_def totalSteps_def prevClick_def
  finishClick_def generateCode_begin_def generateCode_settle_def generateCode_finally_def
  generateCode_catch_def renderGeneratedCode_def downloadClick_def generateCode_def
  loadPackageList_def downloadBtnClick_def

lemmas studio_defs =
  s_step_def dispatches_def submit_begin_def submit_settle_def submit_catch_def submit_def
  displayResults_def setLoadingState_def s_showToast_def downloadProject_def studio_init_def

section \<open>Navigation\<close>

lemma currentStep_showToast [simp]: "currentStep (showToast m t st) = currentStep st"
  by (simp add: showToast_def)

lemma currentStep_goToStep [simp]: "currentStep (goToStep n st) = n"
  by (simp add: goToStep_def updateNavButtons_def loadPackageList_def Let_def)

lemma currentStep_prevClick:
  "currentStep (prevClick st) = (if 1 < currentStep st then currentStep st - 1 else currentStep st)"
  by (simp add: prevClick_def)

lemma currentStep_nextClick:
  "currentStep (nextClick st) =
     (if fst (validateStep (currentStep st) st) \<and> currentStep st < 5 then currentStep st + 1
      else currentStep st)"
  by (simp add: nextClick_def validateStep_def showToast_def totalSteps_def split: prod.splits)

lemma currentStep_finishClick [simp]: "currentStep (finishClick st) = currentStep st"
  by (simp add: finishClick_def)

lemma currentStep_nextBtnClick: "currentStep (nextBtnClick st) = currentStep (nextClick st)"
  by (simp add: nextBtnClick_def Let_def)

lemma currentStep_cardClick [simp]: "currentStep (fst (cardClick i st)) = currentStep st"
  by (simp add: cardClick_def Let_def split: option.splits)

lemma currentStep_generateCode_begin [simp]:
  "currentStep (generateCode_begin inp st) = currentStep st"
  by (simp add: generateCode_begin_def)

lemma currentStep_generateCode_settle [simp]:
  "currentStep (generateCode_settle out st) = currentStep st"
  by (simp add: generateCode_settle_def generateCode_finally_def generateCode_catch_def
      renderGeneratedCode_def split: outcome.splits body.splits option.splits)

lemma currentStep_downloadClick [simp]: "currentStep (downloadClick st) = currentStep st"
  by (simp add: downloadClick_def)

text \<open>The download listeners write the toast and the location only, however many run.\<close>

lemma downloadClick_funpow_keeps [simp]:
  "currentStep ((downloadClick ^^ n) st) = currentStep st
   \<and> selectedProcedure ((downloadClick ^^ n) st) = selectedProcedure st
   \<and> generatedProjectId ((downloadClick ^^ n) st) = generatedProjectId st
   \<and> cards ((downloadClick ^^ n) st) = cards st
   \<and> packages ((downloadClick ^^ n) st) = packages st
   \<and> packageList ((downloadClick ^^ n) st) = packageList st
   \<and> downloadListeners ((downloadClick ^^ n) st) = downloadListeners st
   \<and> generateBtnDisabled ((downloadClick ^^ n) st) = generateBtnDisabled st
   \<and> requests ((downloadClick ^^ n) st) = requests st
   \<and> inFlight ((downloadClick ^^ n) st) = inFlight st"
  by (induction n) (simp_all add: downloadClick_def showToast_def)

lemma downloadClick_funpow_falsy:
  "\<not> truthy (generatedProjectId st) \<Longrightarrow>
   (downloadClick ^^ n) st =
     st\<lparr>toasts := toasts st @
       replicate n (''Generera kod f'' @ [ouml] @ ''rst (steg 3)'', ToastWarning)\<rparr>"
  by (induction n) (simp_all add: downloadClick_def showToast_def replicate_append_same)

lemma downloadClick_funpow_truthy:
  "truthy (generatedProjectId st) \<Longrightarrow>
   location_href ((downloadClick ^^ Suc n) st)
     = Some (''/vr-studio/download/'' @ toString (generatedProjectId st))"
  by (simp add: downloadClick_def showToast_def)

lemma currentStep_downloadBtnClick [simp]:
  "currentStep (downloadBtnClick st) = currentStep st"
  by (simp add: downloadBtnClick_def)

lemma run_append: "run (es @ fs) st = run fs (run es st)"
  by (induction es arbitrary: st) simp_all

text \<open>
  Claim C1, as stated, makes \<open>validate(1)\<close> fail exactly when the selection is \<open>null\<close>.
  On a page whose card has an empty \<open>data-procedure\<close>, clicking the card leaves a selection
  that is neither \<open>null\<close> nor \<open>undefined\<close>, and still \<open>validateStep(1)\<close> fails and a click
  on the next button leaves the wizard on step 1: the test in the code is
  \<open>!selectedProcedure\<close>.
\<close>

theorem validateStep_rejects_empty_selection:
  "selectedProcedure (run [CardEv 0] (init blank_procedures blank_cards)) \<noteq> Null
   \<and> selectedProcedure (run [CardEv 0] (init blank_procedures blank_cards)) \<noteq> Undefined
   \<and> currentStep (run [CardEv 0] (init blank_procedures blank_cards)) = 1
   \<and> \<not> fst (validateStep 1 (run [CardEv 0] (init blank_procedures blank_cards)))
   \<and> currentStep (run [CardEv 0, NextBtn] (init blank_procedures blank_cards)) = 1"
  by (simp add: blank_procedures_def blank_cards_def wizard_defs)

text \<open>
  Claim C1, amended: a click on the next button moves the wizard from step \<open>s\<close> to \<open>s + 1\<close>
  if and only if \<open>s < 5\<close> and \<open>validateStep(s)\<close> succeeds; \<open>validateStep(s)\<close> fails exactly
  when \<open>s = 1\<close> and the selection is falsy (\<open>null\<close>, \<open>undefined\<close> or the empty string) or
  \<open>s = 3\<close> and the generated project id is falsy, and succeeds for every other step; when
  it fails, the step, the selection and the project id are unchanged, and as long as the
  last step has not been reached before, the whole state is unchanged but for one warning
  toast.
\<close>

theorem nextBtnClick_advances_iff_validated:
  "(currentStep (nextBtnClick st) = currentStep st + 1 \<longleftrightarrow>
      currentStep st < 5 \<and> fst (validateStep (currentStep st) st))
   \<and> ((\<not> fst (validateStep s st)) \<longleftrightarrow>
      (s = 1 \<and> \<not> truthy (selectedProcedure st)) \<or> (s = 3 \<and> \<not> truthy (generatedProjectId st)))
   \<and> (\<not> fst (validateStep (currentStep st) st) \<longrightarrow>
      currentStep (nextBtnClick st) = currentStep st
      \<and> selectedProcedure (nextBtnClick st) = selectedProcedure st
      \<and> generatedProjectId (nextBtnClick st) = generatedProjectId st)
   \<and> (\<not> fst (validateStep (currentStep st) st) \<and> \<not> nextBtnOnclick st \<longrightarrow>
      nextBtnClick st =
        st\<lparr>toasts := toasts st @
          [(if currentStep st = 1 then msg_select_first else msg_generate_first, ToastWarning)]\<rparr>)"
proof -
  have a: "currentStep (nextBtnClick st) = currentStep st + 1 \<longleftrightarrow>
      currentStep st < 5 \<and> fst (validateStep (currentStep st) st)"
    by (auto simp add: currentStep_nextBtnClick currentStep_nextClick)
  have b: "(\<not> fst (validateStep s st)) \<longleftrightarrow>
      (s = 1 \<and> \<not> truthy (selectedProcedure st)) \<or> (s = 3 \<and> \<not> truthy (generatedProjectId st))"
    by (simp add: validateStep_def)
  have c: "\<not> fst (validateStep (currentStep st) st) \<longrightarrow>
      currentStep (nextBtnClick st) = currentStep st
      \<and> selectedProcedure (nextBtnClick st) = selectedProcedure st
      \<and> generatedProjectId (nextBtnClick st) = generatedProjectId st"
    by (auto simp add: nextBtnClick_def nextClick_def finishClick_def validateStep_def
        showToast_def Let_def)
  have d: "\<not> fst (validateStep (currentStep st) st) \<and> \<not> nextBtnOnclick st \<longrightarrow>
      nextBtnClick st =
        st\<lparr>toasts := toasts st @
          [(if currentStep st = 1 then msg_select_first else msg_generate_first, ToastWarning)]\<rparr>"
    by (auto simp add: nextBtnClick_def nextClick_def validateStep_def showToast_def Let_def)
  from a b c d show ?thesis by blast
qed

theorem nextBtnClick_advances_iff_validated_witness:
  "\<not> fst (validateStep (currentStep (init sample_procedures sample_cards))
        (init sample_procedures sample_cards))
   \<and> \<not> nextBtnOnclick (init sample_procedures sample_cards)
   \<and> nextBtnClick (init sample_procedures sample_cards)
       = (init sample_procedures sample_cards)\<lparr>toasts := [(msg_select_first, ToastWarning)]\<rparr>
   \<and> currentStep (nextBtnClick (init sample_procedures sample_cards)) = 1
   \<and> currentStep (nextBtnClick (run [CardEv 0] (init sample_procedures sample_cards))) = 2"
  using nextBtnClick_advances_iff_validated [of "init sample_procedures sample_cards" 1]
    nextBtnClick_advances_iff_validated
      [of "run [CardEv 0] (init sample_procedures sample_cards)" 1]
  by (simp add: sample_procedures_def sample_cards_def wizard_defs)

text \<open>
  Once step 5 has been entered \<open>nextBtn.onclick\<close> stays assigned: back on step 3, after a
  successful response without a \<open>project_id\<close>, a click on the next button is refused by
  \<open>validateStep\<close>, and the handler of the last step still shows its toast and leaves for
  \<open>/vr-studio/\<close>.
\<close>

lemma nextBtn_onclick_outlives_last_step:
  "currentStep (run [CardEv 0, NextBtn, NextBtn, GenerateClick sample_inputs, Settle p1_response,
       NextBtn, NextBtn, PrevBtn, PrevBtn, GenerateClick sample_inputs, Settle idless_response]
       (init sample_procedures sample_cards)) = 3
   \<and> location_href (run [CardEv 0, NextBtn, NextBtn, GenerateClick sample_inputs,
       Settle p1_response, NextBtn, NextBtn, PrevBtn, PrevBtn, GenerateClick sample_inputs,
       Settle idless_response] (init sample_procedures sample_cards)) = None
   \<and> currentStep (run [CardEv 0, NextBtn, NextBtn, GenerateClick sample_inputs, Settle p1_response,
       NextBtn, NextBtn, PrevBtn, PrevBtn, GenerateClick sample_inputs, Settle idless_response,
       NextBtn] (init sample_procedures sample_cards)) = 3
   \<and> location_href (run [CardEv 0, NextBtn, NextBtn, GenerateClick sample_inputs,
       Settle p1_response, NextBtn, NextBtn, PrevBtn, PrevBtn, GenerateClick sample_inputs,
       Settle idless_response, NextBtn] (init sample_procedures sample_cards))
     = Some ''/vr-studio/''"
  by (simp add: sample_procedures_def sample_cards_def p1_response_def idless_response_def
      wizard_defs)

text \<open>The step stays between 1 and 5 under every event.\<close>

lemma step_keeps_range:
  "1 \<le> currentStep st \<and> currentStep st \<le> 5 \<Longrightarrow>
   1 \<le> currentStep (step e st) \<and> currentStep (step e st) \<le> 5"
  by (cases e) (auto simp add: step_def currentStep_nextBtnClick currentStep_nextClick
      currentStep_prevClick)

lemma run_keeps_range:
  "1 \<le> currentStep st \<and> currentStep st \<le> 5 \<Longrightarrow>
   1 \<le> currentStep (run evs st) \<and> currentStep (run evs st) \<le> 5"
proof (induction evs arbitrary: st)
  case Nil
  then show ?case by simp
next
  case (Cons e evs)
  from Cons.prems have "1 \<le> currentStep (step e st) \<and> currentStep (step e st) \<le> 5"
    by (rule step_keeps_range)
  then show ?case using Cons.IH by simp
qed

text \<open>
  Claim C2: from the initial state, whatever events occur (next, previous, card clicks,
  generation requests and their responses, download), \<open>currentStep\<close> stays within 1 to 5;
  each single event keeps it there; the previous button's listener moves from any step
  above 1 to the step below and never goes below 1.
\<close>

theorem currentStep_always_in_range:
  "(1 \<le> currentStep (run evs (init ps cs)) \<and> currentStep (run evs (init ps cs)) \<le> 5)
   \<and> (1 \<le> currentStep st \<and> currentStep st \<le> 5 \<longrightarrow>
        1 \<le> currentStep (step e st) \<and> currentStep (step e st) \<le> 5)
   \<and> (1 < currentStep st \<longrightarrow> currentStep (prevClick st) = currentStep st - 1)
   \<and> (1 \<le> currentStep st \<longrightarrow> 1 \<le> currentStep (prevClick st))"
proof -
  have "1 \<le> currentStep (init ps cs) \<and> currentStep (init ps cs) \<le> 5"
    by (simp add: init_def)
  then have "1 \<le> currentStep (run evs (init ps cs)) \<and> currentStep (run evs (init ps cs)) \<le> 5"
    by (rule run_keeps_range)
  moreover have "1 \<le> currentStep st \<and> currentStep st \<le> 5 \<longrightarrow>
        1 \<le> currentStep (step e st) \<and> currentStep (step e st) \<le> 5"
    using step_keeps_range by blast
  moreover have "1 < currentStep st \<longrightarrow> currentStep (prevClick st) = currentStep st - 1"
    by (simp add: currentStep_prevClick)
  moreover have "1 \<le> currentStep st \<longrightarrow> 1 \<le> currentStep (prevClick st)"
    by (simp add: currentStep_prevClick)
  ultimately show ?thesis by blast
qed

theorem currentStep_always_in_range_witness:
  "1 < currentStep (run [CardEv 0, NextBtn] (init sample_procedures sample_cards))
   \<and> currentStep (prevClick (run [CardEv 0, NextBtn] (init sample_procedures sample_cards))) = 1
   \<and> currentStep (step PrevBtn (run [CardEv 0, NextBtn] (init sample_procedures sample_cards))) \<le> 5"
  using currentStep_always_in_range [of "[CardEv 0, NextBtn]" sample_procedures sample_cards
      "run [CardEv 0, NextBtn] (init sample_procedures sample_cards)" PrevBtn]
  by (simp add: sample_procedures_def sample_cards_def step_def cardClick_def init_def
      showToast_def validateStep_def nextClick_def nextBtnClick_def Let_def goToStep_def
      updateNavButtons_def totalSteps_def prevClick_def)

section \<open>Generation requests\<close>

lemma generatedProjectId_generateCode_begin [simp]:
  "generatedProjectId (generateCode_begin inp st) = generatedProjectId st"
  by (simp add: generateCode_begin_def)

lemma selectedProcedure_generateCode_begin [simp]:
  "selectedProcedure (generateCode_begin inp st) = selectedProcedure st"
  by (simp add: generateCode_begin_def)

lemma selectedProcedure_generateCode_settle [simp]:
  "selectedProcedure (generateCode_settle out st) = selectedProcedure st"
  by (simp add: generateCode_settle_def generateCode_finally_def generateCode_catch_def
      renderGeneratedCode_def showToast_def split: outcome.splits body.splits option.splits)

lemma currentProjectId_submit_begin [simp]:
  "currentProjectId (submit_begin inp st) = currentProjectId st"
  "generatedScripts (submit_begin inp st) = generatedScripts st"
  by (simp_all add: submit_begin_def setLoadingState_def s_showToast_def Let_def)

lemma fst_validateStep:
  "fst (validateStep s st) \<longleftrightarrow>
     \<not> (s = 1 \<and> \<not> truthy (selectedProcedure st)) \<and> \<not> (s = 3 \<and> \<not> truthy (generatedProjectId st))"
  by (simp add: validateStep_def)

text \<open>The three ways into the \<open>catch\<close> block leave the project id alone.\<close>

lemma generatedProjectId_settle_failure:
  assumes "out = FetchRejected m \<or> out = Response ok (Unreadable m)
           \<or> (out = Response ok (Parsed d) \<and> \<not> success d)"
  shows "generatedProjectId (generateCode_settle out st) = generatedProjectId st"
  using assms
  by (auto simp add: generateCode_settle_def generateCode_finally_def generateCode_catch_def
      showToast_def)

lemma currentProjectId_settle_failure:
  assumes "out = FetchRejected m \<or> out = Response ok (Unreadable m)
           \<or> (out = Response ok (Parsed d) \<and> \<not> success d)"
  shows "currentProjectId (submit_settle out st) = currentProjectId st
         \<and> generatedScripts (submit_settle out st) = generatedScripts st"
  using assms
  by (auto simp add: submit_settle_def submit_catch_def setLoadingState_def s_showToast_def Let_def)

text \<open>
  Claim C3, as stated, counts a non-success response among the failures that leave the
  artifact id unchanged.  Neither handler reads the status: a response with status 500
  whose body says \<open>success: true\<close> replaces the id, in the wizard and in the form.
\<close>

theorem non_ok_response_overwrites_project_id:
  "generatedProjectId (init sample_procedures sample_cards) = Null
   \<and> generatedProjectId
        (generateCode sample_inputs contradictory_response (init sample_procedures sample_cards))
      = Str ''p9''
   \<and> currentProjectId studio_init = Null
   \<and> currentProjectId (submit sample_form contradictory_response studio_init) = Str ''p9''"
  by (simp add: contradictory_response_def generateCode_def generateCode_settle_def
      generateCode_finally_def renderGeneratedCode_def showToast_def init_def submit_def
      submit_settle_def sample_form_def trim_def isWhiteSpace_def displayResults_def
      setLoadingState_def s_showToast_def studio_init_def Let_def)

text \<open>
  Claim C3, amended: if \<open>fetch\<close> rejects, or the body cannot be read, or the body's
  \<open>success\<close> is falsy (whatever the HTTP status), then the project id after the invocation
  equals its value before it, and so do the selection, the step and hence every verdict
  of \<open>validateStep\<close>; a next click on step 3 after such an attempt still stays on step 3
  when no project id was held before.  The same holds for \<open>currentProjectId\<close> and
  \<open>generatedScripts\<close> of the stand-alone form.
\<close>

theorem failed_generation_keeps_project_id:
  assumes "out = FetchRejected m \<or> out = Response ok (Unreadable m)
           \<or> (out = Response ok (Parsed d) \<and> \<not> success d)"
  shows "generatedProjectId (generateCode inp out st) = generatedProjectId st
    \<and> selectedProcedure (generateCode inp out st) = selectedProcedure st
    \<and> currentStep (generateCode inp out st) = currentStep st
    \<and> fst (validateStep s (generateCode inp out st)) = fst (validateStep s st)
    \<and> (currentStep st = 3 \<and> \<not> truthy (generatedProjectId st) \<longrightarrow>
         currentStep (nextClick (generateCode inp out st)) = 3)
    \<and> currentProjectId (submit finp out sst) = currentProjectId sst
    \<and> generatedScripts (submit finp out sst) = generatedScripts sst"
proof -
  have id: "generatedProjectId (generateCode inp out st) = generatedProjectId st"
    using generatedProjectId_settle_failure [OF assms] by (simp add: generateCode_def)
  have sel: "selectedProcedure (generateCode inp out st) = selectedProcedure st"
    by (simp add: generateCode_def)
  have cs: "currentStep (generateCode inp out st) = currentStep st"
    by (simp add: generateCode_def)
  have v: "fst (validateStep s (generateCode inp out st)) = fst (validateStep s st)"
    by (simp add: fst_validateStep id sel)
  have n: "currentStep st = 3 \<and> \<not> truthy (generatedProjectId st) \<longrightarrow>
         currentStep (nextClick (generateCode inp out st)) = 3"
    by (simp add: currentStep_nextClick fst_validateStep id sel cs)
  have s: "currentProjectId (submit finp out sst) = currentProjectId sst
    \<and> generatedScripts (submit finp out sst) = generatedScripts sst"
    using currentProjectId_settle_failure [OF assms] by (simp add: submit_def)
  from id sel cs v n s show ?thesis by blast
qed

theorem failed_generation_keeps_project_id_witness:
  "currentStep (run [CardEv 0, NextBtn, NextBtn] (init sample_procedures sample_cards)) = 3
   \<and> generatedProjectId (generateCode sample_inputs boom_response
        (run [CardEv 0, NextBtn, NextBtn] (init sample_procedures sample_cards))) = Null
   \<and> currentStep (nextClick (generateCode sample_inputs boom_response
        (run [CardEv 0, NextBtn, NextBtn] (init sample_procedures sample_cards)))) = 3
   \<and> currentProjectId (submit sample_form boom_response studio_init) = Null"
  using failed_generation_keeps_project_id [of boom_response "[]" True
      "\<lparr>success = False, project_id = Undefined, scripts = None, error = Str ''boom''\<rparr>"
      sample_inputs "run [CardEv 0, NextBtn, NextBtn] (init sample_procedures sample_cards)"
      3 sample_form studio_init]
  by (simp add: boom_response_def sample_procedures_def sample_cards_def step_def cardClick_def
      init_def showToast_def validateStep_def nextClick_def nextBtnClick_def Let_def goToStep_def
      updateNavButtons_def totalSteps_def studio_init_def)

text \<open>Every prompt the wizard builds starts with fixed text.\<close>

lemma buildPrompt_not_empty: "buildPrompt sel inp \<noteq> []"
  by (simp add: buildPrompt_def Let_def)

lemma prompts_step:
  "list_all (\<lambda>r. prompt r \<noteq> []) (requests st) \<Longrightarrow>
   list_all (\<lambda>r. prompt r \<noteq> []) (requests (step e st))"
  by (cases e)
     (auto simp add: wizard_defs buildPrompt_not_empty
        split: prod.splits option.splits outcome.splits body.splits)

lemma prompts_run:
  "list_all (\<lambda>r. prompt r \<noteq> []) (requests st) \<Longrightarrow>
   list_all (\<lambda>r. prompt r \<noteq> []) (requests (run evs st))"
  by (induction evs arbitrary: st) (simp_all add: prompts_step)

text \<open>
  Claim C4: a generation request with an empty prompt is refused before the network.  In
  the stand-alone form, when the typed prompt is empty after trimming (in particular when
  it is the empty string), the submit handler ends with the warning toast and nothing
  else: no request is issued, none is in flight, and the state is the one before but for
  the toast.  The wizard has no such test, and needs none for this claim: no request it
  ever issues carries an empty prompt.
\<close>

theorem empty_prompt_issues_no_request:
  "(trim (promptValue finp) = [] \<longrightarrow>
      submit finp out sst = s_showToast msg_prompt_first ToastWarning sst
      \<and> s_step (SubmitEv finp) sst =
          (if s_generateBtnDisabled sst then sst
           else s_showToast msg_prompt_first ToastWarning sst)
      \<and> s_requests (submit finp out sst) = s_requests sst
      \<and> s_inFlight (submit finp out sst) = s_inFlight sst
      \<and> currentProjectId (submit finp out sst) = currentProjectId sst)
   \<and> trim [] = []
   \<and> list_all (\<lambda>r. prompt r \<noteq> []) (requests (run evs (init ps cs)))"
proof -
  have "list_all (\<lambda>r. prompt r \<noteq> []) (requests (init ps cs))"
    by (simp add: init_def)
  then have "list_all (\<lambda>r. prompt r \<noteq> []) (requests (run evs (init ps cs)))"
    by (rule prompts_run)
  moreover have "trim [] = []"
    by (simp add: trim_def)
  moreover have "trim (promptValue finp) = [] \<longrightarrow>
      submit finp out sst = s_showToast msg_prompt_first ToastWarning sst
      \<and> s_step (SubmitEv finp) sst =
          (if s_generateBtnDisabled sst then sst
           else s_showToast msg_prompt_first ToastWarning sst)
      \<and> s_requests (submit finp out sst) = s_requests sst
      \<and> s_inFlight (submit finp out sst) = s_inFlight sst
      \<and> currentProjectId (submit finp out sst) = currentProjectId sst"
    by (simp add: submit_def submit_begin_def s_showToast_def s_step_def dispatches_def)
  ultimately show ?thesis by blast
qed

theorem empty_prompt_issues_no_request_witness:
  "trim (promptValue blank_form) = []
   \<and> submit blank_form p1_response studio_init
       = studio_init\<lparr>s_toasts := [(msg_prompt_first, ToastWarning)]\<rparr>
   \<and> s_requests (submit blank_form p1_response studio_init) = []
   \<and> prompt (hd (requests (run [GenerateClick sample_inputs] (init sample_procedures sample_cards))))
       \<noteq> []"
  using empty_prompt_issues_no_request [of blank_form p1_response studio_init
      "[GenerateClick sample_inputs]" sample_procedures sample_cards]
  by (simp add: blank_form_def trim_def s_showToast_def studio_init_def step_def init_def
      generateCode_begin_def dispatches_def)




section \<open>One request at a time\<close>

lemma busy_inv_step: "busy_inv st \<Longrightarrow> busy_inv (step e st)"
  by (cases e)
     (auto simp add: busy_inv_def wizard_defs
        split: prod.splits option.splits outcome.splits body.splits if_splits)

lemma busy_inv_run: "busy_inv st \<Longrightarrow> busy_inv (run evs st)"
  by (induction evs arbitrary: st) (simp_all add: busy_inv_step)

lemma s_busy_inv_step: "s_busy_inv st \<Longrightarrow> s_busy_inv (s_step e st)"
  by (cases e)
     (auto simp add: s_busy_inv_def studio_defs Let_def
        split: prod.splits option.splits outcome.splits body.splits if_splits)

lemma s_busy_inv_run: "s_busy_inv st \<Longrightarrow> s_busy_inv (s_run evs st)"
  by (induction evs arbitrary: st) (simp_all add: s_busy_inv_step)

lemma not_disabled_settle: "\<not> generateBtnDisabled (generateCode_settle out st)"
  by (simp add: generateCode_settle_def generateCode_finally_def)

lemma requests_settle: "requests (generateCode_settle out st) = requests st"
  by (simp add: generateCode_settle_def generateCode_finally_def generateCode_catch_def
      renderGeneratedCode_def showToast_def split: outcome.splits body.splits option.splits)

lemma s_not_disabled_settle: "\<not> s_generateBtnDisabled (submit_settle out st)"
  by (simp add: studio_defs Let_def split: outcome.splits body.splits)

lemma s_requests_settle: "s_requests (submit_settle out st) = s_requests st"
  by (simp add: studio_defs Let_def split: outcome.splits body.splits)

text \<open>
  Claim C6: at most one generation request is in flight at any time.  Whatever events
  occur from the initial state, at most one call is in flight and the generate button is
  disabled exactly while one is; an invocation issues exactly one call and disables the
  button (in the form, when the trimmed prompt is not empty); a click while the button is
  disabled changes nothing, so no further call is issued; and when the call settles the
  button is enabled again for every outcome, without another call.  The same holds for
  the stand-alone form.
\<close>

theorem at_most_one_request_in_flight:
  "inFlight (run evs (init ps cs)) \<le> 1
   \<and> (generateBtnDisabled (run evs (init ps cs)) \<longleftrightarrow> inFlight (run evs (init ps cs)) = 1)
   \<and> length (requests (generateCode_begin inp st)) = length (requests st) + 1
   \<and> generateBtnDisabled (generateCode_begin inp st)
   \<and> (generateBtnDisabled st \<longrightarrow> step (GenerateClick inp) st = st)
   \<and> \<not> generateBtnDisabled (generateCode_settle out st)
   \<and> requests (generateCode_settle out st) = requests st
   \<and> s_inFlight (s_run sevs studio_init) \<le> 1
   \<and> (s_generateBtnDisabled (s_run sevs studio_init) \<longleftrightarrow> s_inFlight (s_run sevs studio_init) = 1)
   \<and> (trim (promptValue finp) \<noteq> [] \<longrightarrow>
        length (s_requests (submit_begin finp sst)) = length (s_requests sst) + 1
        \<and> s_generateBtnDisabled (submit_begin finp sst))
   \<and> (s_generateBtnDisabled sst \<longrightarrow> s_step (SubmitEv finp) sst = sst)
   \<and> \<not> s_generateBtnDisabled (submit_settle out sst)
   \<and> s_requests (submit_settle out sst) = s_requests sst"
proof -
  have "busy_inv (init ps cs)"
    by (simp add: busy_inv_def init_def)
  then have "busy_inv (run evs (init ps cs))"
    by (rule busy_inv_run)
  then have w: "inFlight (run evs (init ps cs)) \<le> 1
      \<and> (generateBtnDisabled (run evs (init ps cs)) \<longleftrightarrow> inFlight (run evs (init ps cs)) = 1)"
    by (simp add: busy_inv_def split: if_splits)
  have "s_busy_inv studio_init"
    by (simp add: s_busy_inv_def studio_init_def)
  then have "s_busy_inv (s_run sevs studio_init)"
    by (rule s_busy_inv_run)
  then have s: "s_inFlight (s_run sevs studio_init) \<le> 1
      \<and> (s_generateBtnDisabled (s_run sevs studio_init)
           \<longleftrightarrow> s_inFlight (s_run sevs studio_init) = 1)"
    by (simp add: s_busy_inv_def split: if_splits)
  have b: "length (requests (generateCode_begin inp st)) = length (requests st) + 1
      \<and> generateBtnDisabled (generateCode_begin inp st)"
    by (simp add: generateCode_begin_def)
  have g: "generateBtnDisabled st \<longrightarrow> step (GenerateClick inp) st = st"
    by (simp add: step_def dispatches_def)
  have sb: "trim (promptValue finp) \<noteq> [] \<longrightarrow>
        length (s_requests (submit_begin finp sst)) = length (s_requests sst) + 1
        \<and> s_generateBtnDisabled (submit_begin finp sst)"
    by (simp add: submit_begin_def setLoadingState_def Let_def)
  have sg: "s_generateBtnDisabled sst \<longrightarrow> s_step (SubmitEv finp) sst = sst"
    by (simp add: s_step_def dispatches_def)
  from w s b g sb sg not_disabled_settle requests_settle s_not_disabled_settle
    s_requests_settle
  show ?thesis by blast
qed

theorem at_most_one_request_in_flight_witness:
  "generateBtnDisabled (run [GenerateClick sample_inputs] (init sample_procedures sample_cards))
   \<and> length (requests (run [GenerateClick sample_inputs, GenerateClick sample_inputs, NextBtn,
        GenerateClick sample_inputs] (init sample_procedures sample_cards))) = 1
   \<and> \<not> generateBtnDisabled (run [GenerateClick sample_inputs, Settle boom_response]
        (init sample_procedures sample_cards))
   \<and> trim (promptValue sample_form) \<noteq> []
   \<and> length (s_requests (s_run [SubmitEv sample_form, SubmitEv sample_form] studio_init)) = 1
   \<and> s_generateBtnDisabled (s_run [SubmitEv sample_form, SubmitEv sample_form] studio_init)"
  using at_most_one_request_in_flight [of "[GenerateClick sample_inputs]" sample_procedures
      sample_cards sample_inputs
      "run [GenerateClick sample_inputs] (init sample_procedures sample_cards)" boom_response
      "[SubmitEv sample_form]" sample_form "s_run [SubmitEv sample_form] studio_init"]
  by (simp add: wizard_defs studio_defs sample_form_def trim_def isWhiteSpace_def
      boom_response_def)

section \<open>Selecting a procedure\<close>

lemma one_selected:
  "i < length cs \<Longrightarrow>
   length (filter selected
     ((map (\<lambda>c. c\<lparr>selected := False\<rparr>) cs)
        [i := (map (\<lambda>c. c\<lparr>selected := False\<rparr>) cs ! i)\<lparr>selected := True\<rparr>])) = 1"
  by (simp add: upd_conv_take_nth_drop take_map drop_map filter_map o_def)

text \<open>
  Claim C7 says that selecting any option, known or not, sets the selection, marks exactly
  one option, keeps the step and raises no error, falling back to a raw label for an
  unknown id.  The card listener does the first three, but for a card whose procedure is
  not among \<open>procedures\<close> it throws: the header is skipped under \<open>if (proc)\<close> and the toast
  then reads \<open>proc.name_sv\<close> of \<open>undefined\<close>.  No toast is shown and no label is written.
\<close>

theorem cardClick_unknown_procedure_throws:
  assumes "i < length (cards st)"
    and "procedures st = Some ps"
    and "find (\<lambda>p. Str (key p) = dataset_procedure (cards st ! i)) ps = None"
  shows "snd (cardClick i st) = Some TypeError
    \<and> selectedProcedure (fst (cardClick i st)) = dataset_procedure (cards st ! i)
    \<and> length (filter selected (cards (fst (cardClick i st)))) = 1
    \<and> selected (cards (fst (cardClick i st)) ! i)
    \<and> currentStep (fst (cardClick i st)) = currentStep st
    \<and> toasts (fst (cardClick i st)) = toasts st
    \<and> procedureName (fst (cardClick i st)) = procedureName st"
  using assms one_selected [of i "cards st"]
  by (simp add: cardClick_def Let_def)

theorem cardClick_unknown_procedure_throws_witness:
  "cardClick 1 (init sample_procedures stray_cards)
     = ((init sample_procedures stray_cards)
          \<lparr>cards := [\<lparr>dataset_procedure = Str ''proc_a'', selected = False\<rparr>,
                     \<lparr>dataset_procedure = Str ''proc_x'', selected = True\<rparr>],
            selectedProcedure := Str ''proc_x''\<rparr>, Some TypeError)
   \<and> snd (cardClick 0 (init sample_procedures stray_cards)) = None"
  using cardClick_unknown_procedure_throws [of 1 "init sample_procedures stray_cards"
      "[\<lparr>key = ''proc_a'', name_sv = ''Procedur A''\<rparr>]"]
  by (simp add: sample_procedures_def stray_cards_def cardClick_def init_def Let_def
      showToast_def)

lemma list_all_update:
  "list_all P xs \<Longrightarrow> P y \<Longrightarrow> list_all P (xs[i := y])"
  by (induction xs arbitrary: i) (auto split: nat.splits)

lemma cards_truthy_step:
  "list_all (\<lambda>c. truthy (dataset_procedure c)) (cards st) \<Longrightarrow>
   list_all (\<lambda>c. truthy (dataset_procedure c)) (cards (step e st))"
proof (cases e)
  case (CardEv i)
  assume a: "list_all (\<lambda>c. truthy (dataset_procedure c)) (cards st)"
  show ?thesis
  proof (cases "i < length (cards st)")
    case True
    from a have c: "list_all (\<lambda>c. truthy (dataset_procedure c))
        (map (\<lambda>c. c\<lparr>selected := False\<rparr>) (cards st))"
      by (simp add: list_all_iff)
    from a True have "truthy (dataset_procedure (cards st ! i))"
      by (simp add: list_all_length)
    with True c show ?thesis using CardEv
      by (auto simp add: step_def cardClick_def Let_def showToast_def list_all_update
          split: option.splits)
  next
    case False
    with a CardEv show ?thesis by (simp add: step_def cardClick_def)
  qed
qed (auto simp add: wizard_defs split: prod.splits option.splits outcome.splits body.splits)

lemma cards_truthy_run:
  "list_all (\<lambda>c. truthy (dataset_procedure c)) (cards st) \<Longrightarrow>
   list_all (\<lambda>c. truthy (dataset_procedure c)) (cards (run evs st))"
  by (induction evs arbitrary: st) (simp_all add: cards_truthy_step)

lemma selection_step_other:
  "(\<forall>i. e \<noteq> CardEv i) \<Longrightarrow> selectedProcedure (step e st) = selectedProcedure st"
  by (cases e)
     (auto simp add: wizard_defs split: prod.splits option.splits outcome.splits body.splits)

lemma selection_step_card:
  "i < length (cards st) \<Longrightarrow>
   selectedProcedure (step (CardEv i) st) = dataset_procedure (cards st ! i)"
  by (auto simp add: wizard_defs split: option.splits)

lemma selection_truthy_step:
  assumes "list_all (\<lambda>c. truthy (dataset_procedure c)) (cards st)"
    and "truthy (selectedProcedure st)"
  shows "truthy (selectedProcedure (step e st))"
proof (cases e)
  case (CardEv i)
  show ?thesis
  proof (cases "i < length (cards st)")
    case True
    with assms(1) have "truthy (dataset_procedure (cards st ! i))"
      by (simp add: list_all_length)
    with True CardEv show ?thesis by (simp add: selection_step_card)
  next
    case False
    with assms(2) CardEv show ?thesis by (simp add: step_def cardClick_def)
  qed
qed (use assms(2) in \<open>simp_all add: selection_step_other\<close>)

lemma selection_truthy_run:
  "list_all (\<lambda>c. truthy (dataset_procedure c)) (cards st) \<Longrightarrow>
   truthy (selectedProcedure st) \<Longrightarrow> truthy (selectedProcedure (run evs st))"
  by (induction evs arbitrary: st) (simp_all add: selection_truthy_step cards_truthy_step)

text \<open>
  Claim C10, as stated, lets \<open>validate(1)\<close> succeed in every state after the first
  selection.  A later click on a card without a \<open>data-procedure\<close> attribute overwrites the
  selection with \<open>undefined\<close>, and \<open>validateStep(1)\<close> fails again.
\<close>

theorem selection_lost_on_card_without_procedure:
  "selectedProcedure (run [CardEv 0] (init sample_procedures ragged_cards)) = Str ''proc_a''
   \<and> fst (validateStep 1 (run [CardEv 0] (init sample_procedures ragged_cards)))
   \<and> \<not> truthy (selectedProcedure (run [CardEv 0, CardEv 1] (init sample_procedures ragged_cards)))
   \<and> \<not> fst (validateStep 1 (run [CardEv 0, CardEv 1] (init sample_procedures ragged_cards)))"
  by (simp add: sample_procedures_def ragged_cards_def wizard_defs)

text \<open>
  Claim C10, amended: no event other than a card click writes the selection, and a card
  click overwrites it with the clicked card's \<open>data-procedure\<close>; so on a page whose cards
  all carry a non-empty \<open>data-procedure\<close>, once the selection is truthy it stays truthy
  and \<open>validateStep(1)\<close> succeeds in every later state.
\<close>

theorem selection_stays_truthy:
  assumes "list_all (\<lambda>c. truthy (dataset_procedure c)) cs"
  shows "(truthy (selectedProcedure (run evs (init ps cs))) \<longrightarrow>
            truthy (selectedProcedure (run (evs @ later) (init ps cs)))
            \<and> fst (validateStep 1 (run (evs @ later) (init ps cs))))
    \<and> ((\<forall>i. e \<noteq> CardEv i) \<longrightarrow> selectedProcedure (step e st) = selectedProcedure st)
    \<and> (i < length (cards st) \<longrightarrow>
          selectedProcedure (step (CardEv i) st) = dataset_procedure (cards st ! i))"
proof -
  from assms have "list_all (\<lambda>c. truthy (dataset_procedure c)) (cards (init ps cs))"
    by (simp add: init_def)
  then have c: "list_all (\<lambda>c. truthy (dataset_procedure c)) (cards (run evs (init ps cs)))"
    by (rule cards_truthy_run)
  have "truthy (selectedProcedure (run evs (init ps cs))) \<longrightarrow>
            truthy (selectedProcedure (run (evs @ later) (init ps cs)))"
    using selection_truthy_run [OF c] by (simp add: run_append)
  then have a: "truthy (selectedProcedure (run evs (init ps cs))) \<longrightarrow>
            truthy (selectedProcedure (run (evs @ later) (init ps cs)))
            \<and> fst (validateStep 1 (run (evs @ later) (init ps cs)))"
    by (simp add: fst_validateStep)
  from a selection_step_other [of e st] selection_step_card [of i st] show ?thesis by blast
qed

theorem selection_stays_truthy_witness:
  "list_all (\<lambda>c. truthy (dataset_procedure c)) stray_cards
   \<and> truthy (selectedProcedure (run [CardEv 0] (init sample_procedures stray_cards)))
   \<and> fst (validateStep 1 (run ([CardEv 0] @ [NextBtn, CardEv 1, PrevBtn, DownloadBtn])
        (init sample_procedures stray_cards)))
   \<and> selectedProcedure (step NextBtn (init sample_procedures stray_cards)) = Null"
  using selection_stays_truthy [of stray_cards "[CardEv 0]" sample_procedures
      "[NextBtn, CardEv 1, PrevBtn, DownloadBtn]" NextBtn "init sample_procedures stray_cards" 0]
  by (simp add: sample_procedures_def stray_cards_def wizard_defs)

section \<open>Reported failures and the download\<close>

text \<open>
  Claim C8, as stated, has a non-2xx response surface an error message.  The handlers do
  not read the status: a response with status 500 whose body says \<open>success: true\<close> is
  shown as a success, with no error in the toast or in the preview.
\<close>

theorem non_ok_response_surfaces_no_error:
  "toasts (generateCode sample_inputs contradictory_response (init sample_procedures sample_cards))
     = [(''Kod genererad!'', ToastSuccess)]
   \<and> codePreview
       (generateCode sample_inputs contradictory_response (init sample_procedures sample_cards))
     = PreviewNoCode
   \<and> s_toasts (submit sample_form contradictory_response studio_init)
     = [(''Kod genererad!'', ToastSuccess)]"
  by (simp add: contradictory_response_def wizard_defs studio_defs sample_form_def trim_def
      isWhiteSpace_def)

text \<open>
  Claim C8, amended: when the body is read and its \<open>success\<close> is falsy, whatever the HTTP
  status, both handlers show an error toast whose text is \<open>Fel: \<close> followed by the body's
  \<open>error\<close>, unchanged, when that is a non-empty string, and by the fallback text otherwise;
  the project id is not written, so a click on the next button on step 3 that was refused
  before is refused after.  For \<open>{success: false, error: "boom"}\<close> the toast reads
  \<open>Fel: boom\<close>.
\<close>

theorem reported_failure_surfaces_message:
  assumes "\<not> success d"
  shows "toasts (generateCode_settle (Response ok (Parsed d)) st)
           = toasts st @ [(''Fel: '' @ orElse (error d) msg_unknown_error, ToastError)]
    \<and> s_toasts (submit_settle (Response ok (Parsed d)) sst)
           = s_toasts sst @ [(''Fel: '' @ orElse (error d) msg_unknown_error, ToastError)]
    \<and> (error d = Str e \<and> e \<noteq> [] \<longrightarrow> orElse (error d) msg_unknown_error = e)
    \<and> (\<not> truthy (error d) \<longrightarrow> orElse (error d) msg_unknown_error = msg_unknown_error)
    \<and> generatedProjectId (generateCode_settle (Response ok (Parsed d)) st) = generatedProjectId st
    \<and> currentProjectId (submit_settle (Response ok (Parsed d)) sst) = currentProjectId sst
    \<and> (currentStep st = 3 \<and> \<not> fst (validateStep 3 st) \<longrightarrow>
         currentStep (nextBtnClick (generateCode_settle (Response ok (Parsed d)) st)) = 3)"
proof -
  let ?st = "generateCode_settle (Response ok (Parsed d)) st"
  have t: "toasts ?st = toasts st @ [(''Fel: '' @ orElse (error d) msg_unknown_error, ToastError)]"
    using assms
    by (simp add: generateCode_settle_def generateCode_finally_def generateCode_catch_def
        showToast_def)
  have s: "s_toasts (submit_settle (Response ok (Parsed d)) sst)
           = s_toasts sst @ [(''Fel: '' @ orElse (error d) msg_unknown_error, ToastError)]"
    using assms
    by (simp add: submit_settle_def submit_catch_def setLoadingState_def s_showToast_def Let_def)
  have e1: "error d = Str e \<and> e \<noteq> [] \<longrightarrow> orElse (error d) msg_unknown_error = e"
    by (simp add: orElse_def)
  have e2: "\<not> truthy (error d) \<longrightarrow> orElse (error d) msg_unknown_error = msg_unknown_error"
    by (simp add: orElse_def)
  have id: "generatedProjectId ?st = generatedProjectId st"
    using generatedProjectId_settle_failure [of "Response ok (Parsed d)" _ ok d st] assms
    by simp
  have sid: "currentProjectId (submit_settle (Response ok (Parsed d)) sst) = currentProjectId sst"
    using currentProjectId_settle_failure [of "Response ok (Parsed d)" _ ok d sst] assms
    by simp
  have n: "currentStep st = 3 \<and> \<not> fst (validateStep 3 st) \<longrightarrow>
      currentStep (nextBtnClick ?st) = 3"
    by (simp add: currentStep_nextBtnClick currentStep_nextClick fst_validateStep id)
  from t s e1 e2 id sid n show ?thesis by blast
qed

theorem reported_failure_surfaces_message_witness:
  "currentStep (run [CardEv 0, NextBtn, NextBtn, GenerateClick sample_inputs]
      (init sample_procedures sample_cards)) = 3
   \<and> toasts (generateCode_settle boom_response
      (run [CardEv 0, NextBtn, NextBtn, GenerateClick sample_inputs]
         (init sample_procedures sample_cards)))
     = [(''Procedur A vald'', ToastSuccess), (''Fel: boom'', ToastError)]
   \<and> s_toasts (submit_settle boom_response studio_init) = [(''Fel: boom'', ToastError)]
   \<and> currentStep (nextBtnClick (generateCode_settle boom_response
      (run [CardEv 0, NextBtn, NextBtn, GenerateClick sample_inputs]
         (init sample_procedures sample_cards)))) = 3"
  using reported_failure_surfaces_message
    [of "\<lparr>success = False, project_id = Undefined, scripts = None, error = Str ''boom''\<rparr>"
      True
      "run [CardEv 0, NextBtn, NextBtn, GenerateClick sample_inputs]
         (init sample_procedures sample_cards)"
      studio_init "''boom''"]
  by (simp add: boom_response_def sample_procedures_def sample_cards_def wizard_defs
      studio_defs)

text \<open>The page data never change, and the listener invariant holds along every run.\<close>

lemma page_data_step:
  "packages (step e st) = packages st \<and> packageList (step e st) = packageList st"
  by (cases e)
     (auto simp add: wizard_defs split: prod.splits option.splits outcome.splits body.splits)

lemma page_data_run:
  "packages (run evs st) = packages st \<and> packageList (run evs st) = packageList st"
  by (induction evs arbitrary: st) (simp_all add: page_data_step)

lemma listener_inv_step: "listener_inv st \<Longrightarrow> listener_inv (step e st)"
  by (cases e)
     (auto simp add: listener_inv_def wizard_defs
        split: prod.splits option.splits outcome.splits body.splits if_splits)

lemma listener_inv_run: "listener_inv st \<Longrightarrow> listener_inv (run evs st)"
  by (induction evs arbitrary: st) (simp_all add: listener_inv_step)

text \<open>
  Claim C9, as stated, has the download navigate whenever the artifact id is not \<open>null\<close>.
  A successful response whose \<open>project_id\<close> is the empty string, arriving when the wizard
  has moved on to step 4, leaves an id that is neither \<open>null\<close> nor \<open>undefined\<close>, and the
  click on the download button, which carries its listener, still only warns: the test is
  \<open>if (generatedProjectId)\<close>.  The form does the same after such a response.
\<close>

theorem download_refuses_empty_project_id:
  "currentStep (run [CardEv 0, NextBtn, NextBtn, GenerateClick sample_inputs, Settle p1_response,
       GenerateClick sample_inputs, NextBtn, Settle blank_id_response]
       (init sample_procedures sample_cards)) = 4
   \<and> downloadListeners (run [CardEv 0, NextBtn, NextBtn, GenerateClick sample_inputs,
       Settle p1_response, GenerateClick sample_inputs, NextBtn, Settle blank_id_response]
       (init sample_procedures sample_cards)) = 1
   \<and> generatedProjectId (run [CardEv 0, NextBtn, NextBtn, GenerateClick sample_inputs,
       Settle p1_response, GenerateClick sample_inputs, NextBtn, Settle blank_id_response]
       (init sample_procedures sample_cards)) \<noteq> Null
   \<and> generatedProjectId (run [CardEv 0, NextBtn, NextBtn, GenerateClick sample_inputs,
       Settle p1_response, GenerateClick sample_inputs, NextBtn, Settle blank_id_response]
       (init sample_procedures sample_cards)) \<noteq> Undefined
   \<and> location_href (run [CardEv 0, NextBtn, NextBtn, GenerateClick sample_inputs,
       Settle p1_response, GenerateClick sample_inputs, NextBtn, Settle blank_id_response,
       DownloadBtn] (init sample_procedures sample_cards)) = None
   \<and> snd (last (toasts (run [CardEv 0, NextBtn, NextBtn, GenerateClick sample_inputs,
       Settle p1_response, GenerateClick sample_inputs, NextBtn, Settle blank_id_response,
       DownloadBtn] (init sample_procedures sample_cards)))) = ToastWarning
   \<and> currentProjectId (s_run [SubmitEv sample_form, SettleEv blank_id_response] studio_init)
       \<noteq> Null
   \<and> currentProjectId (s_run [SubmitEv sample_form, SettleEv blank_id_response] studio_init)
       \<noteq> Undefined
   \<and> s_location_href
       (s_run [SubmitEv sample_form, SettleEv blank_id_response, DownloadEv] studio_init) = None
   \<and> snd (last (s_toasts
       (s_run [SubmitEv sample_form, SettleEv blank_id_response, DownloadEv] studio_init)))
       = ToastWarning"
  by (simp add: sample_procedures_def sample_cards_def p1_response_def blank_id_response_def
      sample_form_def trim_def isWhiteSpace_def wizard_defs studio_defs)

text \<open>
  Claim C9, amended: the download requires a truthy artifact id.  No click on a download
  button issues a request, awaits a response or writes the id.  When the id is falsy
  (\<open>null\<close>, \<open>undefined\<close> or the empty string) the click does not navigate, and a button
  that carries its listener shows the warning; when the id is truthy a button that
  carries its listener assigns the download location built from the id to
  \<open>window.location.href\<close>.  The wizard's button carries its listener whenever the wizard
  is on step 4 of a page that has its packages and its package list; the form's button
  carries \<open>downloadProject\<close> from the start.
\<close>

theorem download_requires_truthy_id:
  "requests (downloadBtnClick st) = requests st
   \<and> inFlight (downloadBtnClick st) = inFlight st
   \<and> generatedProjectId (downloadBtnClick st) = generatedProjectId st
   \<and> (\<not> truthy (generatedProjectId st) \<longrightarrow>
        location_href (downloadBtnClick st) = location_href st)
   \<and> (\<not> truthy (generatedProjectId st) \<and> 1 \<le> downloadListeners st \<longrightarrow>
        last (toasts (downloadBtnClick st))
          = (''Generera kod f'' @ [ouml] @ ''rst (steg 3)'', ToastWarning))
   \<and> (truthy (generatedProjectId st) \<and> 1 \<le> downloadListeners st \<longrightarrow>
        location_href (downloadBtnClick st)
          = Some (''/vr-studio/download/'' @ toString (generatedProjectId st)))
   \<and> (vr_packages ps \<and> hasPackageList ps \<and> currentStep (run evs (init ps cs)) = 4 \<longrightarrow>
        1 \<le> downloadListeners (run evs (init ps cs)))
   \<and> (\<not> truthy (currentProjectId sst) \<longrightarrow>
      downloadProject sst = s_showToast ''Ingen projekt att ladda ner'' ToastWarning sst
      \<and> s_location_href (downloadProject sst) = s_location_href sst)
   \<and> (truthy (currentProjectId sst) \<longrightarrow>
      downloadProject sst = s_showToast ''Laddar ner...'' ToastSuccess
        (sst\<lparr>s_location_href :=
               Some (''/vr-studio/download/'' @ toString (currentProjectId sst))\<rparr>))
   \<and> s_requests (downloadProject sst) = s_requests sst
   \<and> s_inFlight (downloadProject sst) = s_inFlight sst"
proof -
  have k: "requests (downloadBtnClick st) = requests st
      \<and> inFlight (downloadBtnClick st) = inFlight st
      \<and> generatedProjectId (downloadBtnClick st) = generatedProjectId st"
    by (simp add: downloadBtnClick_def)
  have f: "\<not> truthy (generatedProjectId st) \<longrightarrow>
      location_href (downloadBtnClick st) = location_href st"
    by (simp add: downloadBtnClick_def downloadClick_funpow_falsy)
  have w: "\<not> truthy (generatedProjectId st) \<and> 1 \<le> downloadListeners st \<longrightarrow>
      last (toasts (downloadBtnClick st))
        = (''Generera kod f'' @ [ouml] @ ''rst (steg 3)'', ToastWarning)"
    by (simp add: downloadBtnClick_def downloadClick_funpow_falsy)
  have t: "truthy (generatedProjectId st) \<and> 1 \<le> downloadListeners st \<longrightarrow>
      location_href (downloadBtnClick st)
        = Some (''/vr-studio/download/'' @ toString (generatedProjectId st))"
  proof (cases "downloadListeners st")
    case 0
    then show ?thesis by simp
  next
    case (Suc n)
    then show ?thesis
      using downloadClick_funpow_truthy [of st n] by (simp add: downloadBtnClick_def)
  qed
  have "listener_inv (init ps cs)"
    by (simp add: listener_inv_def init_def)
  then have "listener_inv (run evs (init ps cs))"
    by (rule listener_inv_run)
  moreover have "packages (run evs (init ps cs)) = vr_packages ps
      \<and> packageList (run evs (init ps cs)) = hasPackageList ps"
    by (simp add: page_data_run init_def)
  ultimately have r: "vr_packages ps \<and> hasPackageList ps
      \<and> currentStep (run evs (init ps cs)) = 4 \<longrightarrow>
        1 \<le> downloadListeners (run evs (init ps cs))"
    by (auto simp add: listener_inv_def split: if_splits)
  have s: "(\<not> truthy (currentProjectId sst) \<longrightarrow>
      downloadProject sst = s_showToast ''Ingen projekt att ladda ner'' ToastWarning sst
      \<and> s_location_href (downloadProject sst) = s_location_href sst)
   \<and> (truthy (currentProjectId sst) \<longrightarrow>
      downloadProject sst = s_showToast ''Laddar ner...'' ToastSuccess
        (sst\<lparr>s_location_href :=
               Some (''/vr-studio/download/'' @ toString (currentProjectId sst))\<rparr>))
   \<and> s_requests (downloadProject sst) = s_requests sst
   \<and> s_inFlight (downloadProject sst) = s_inFlight sst"
    by (simp add: downloadProject_def s_showToast_def)
  from k f w t r s show ?thesis by blast
qed

theorem download_requires_truthy_id_witness:
  "currentStep (run [CardEv 0, NextBtn, NextBtn, GenerateClick sample_inputs, Settle p1_response,
       NextBtn] (init sample_procedures sample_cards)) = 4
   \<and> truthy (generatedProjectId (run [CardEv 0, NextBtn, NextBtn, GenerateClick sample_inputs,
       Settle p1_response, NextBtn] (init sample_procedures sample_cards)))
   \<and> 1 \<le> downloadListeners (run [CardEv 0, NextBtn, NextBtn, GenerateClick sample_inputs,
       Settle p1_response, NextBtn] (init sample_procedures sample_cards))
   \<and> location_href (downloadBtnClick (run [CardEv 0, NextBtn, NextBtn,
       GenerateClick sample_inputs, Settle p1_response, NextBtn]
       (init sample_procedures sample_cards))) = Some ''/vr-studio/download/p1''
   \<and> location_href (downloadBtnClick (run [CardEv 0, NextBtn, NextBtn,
       GenerateClick sample_inputs, Settle p1_response, GenerateClick sample_inputs, NextBtn,
       Settle blank_id_response] (init sample_procedures sample_cards))) = None
   \<and> last (toasts (downloadBtnClick (run [CardEv 0, NextBtn, NextBtn,
       GenerateClick sample_inputs, Settle p1_response, GenerateClick sample_inputs, NextBtn,
       Settle blank_id_response] (init sample_procedures sample_cards))))
       = (''Generera kod f'' @ [ouml] @ ''rst (steg 3)'', ToastWarning)
   \<and> s_location_href (downloadProject studio_init) = None
   \<and> s_location_href (downloadProject (submit_settle p1_response studio_init))
       = Some ''/vr-studio/download/p1''"
  using download_requires_truthy_id
      [of "run [CardEv 0, NextBtn, NextBtn, GenerateClick sample_inputs, Settle p1_response,
             NextBtn] (init sample_procedures sample_cards)"
          sample_procedures
          "[CardEv 0, NextBtn, NextBtn, GenerateClick sample_inputs, Settle p1_response,
            NextBtn]"
          sample_cards studio_init]
    download_requires_truthy_id
      [of "run [CardEv 0, NextBtn, NextBtn, GenerateClick sample_inputs, Settle p1_response,
             GenerateClick sample_inputs, NextBtn, Settle blank_id_response]
             (init sample_procedures sample_cards)"
          sample_procedures "[]" sample_cards "submit_settle p1_response studio_init"]
  by (simp add: sample_procedures_def sample_cards_def p1_response_def blank_id_response_def
      sample_script_def wizard_defs studio_defs)

end
